theory Spec2Isabelle
  imports Main "HOL-Library.Word"
begin

unbundle bit_operations_syntax

section \<open>The three-way merge visitor of package merge3 (lib/yaml/merge3/visitor.go)\<close>

text \<open>
  The visitor decides, for one aligned position of three documents, which node the merged
  document gets. It works on pointers: a \<^verbatim>\<open>*yaml.RNode\<close> wraps a pointer to a
  \<^verbatim>\<open>yaml.Node\<close>, the decision functions hand back one of the pointers they were given,
  a pointer to a node they have just allocated, or the sentinel of package walk, and
  \<^verbatim>\<open>getStrValues\<close> writes the \<^verbatim>\<open>Style\<close> field of the nodes it renders. The
  embedding therefore has an explicit store of nodes, and every function of the visitor
  takes the store and returns it.
\<close>

subsection \<open>Nodes, the store, and pointers\<close>

type_synonym addr = nat

datatype Kind = NoKind | DocumentNode | SequenceNode | MappingNode | ScalarNode | AliasNode

type_synonym Style = "32 word"

text \<open>
  The fields of \<^verbatim>\<open>yaml.Node\<close> that the visitor reads or writes (\<open>Kind\<close>, \<open>Style\<close>,
  \<open>Value\<close>), and those the properties below speak of (the type tag, the children, the
  comments). \<open>Content\<close> holds pointers, as in the source.
\<close>

record Node =
  Kind :: Kind
  Style :: Style
  Tag :: string
  Value :: string
  Content :: "addr list"
  HeadComment :: string
  LineComment :: string
  FootComment :: string

text \<open>The zero value of the struct: what \<^verbatim>\<open>yaml.Node{}\<close> is before any field is set.\<close>

definition Node0 :: Node where
  "Node0 = \<lparr>Kind = NoKind, Style = 0, Tag = [], Value = [], Content = [],
            HeadComment = [], LineComment = [], FootComment = []\<rparr>"

text \<open>
  The store: every address below \<open>fresh\<close> is allocated. Allocation takes that
  address, so a new node is at an address no pointer made before holds.
\<close>

record heap =
  cells :: "addr \<Rightarrow> Node"
  fresh :: addr

definition alloc :: "Node \<Rightarrow> heap \<Rightarrow> addr \<times> heap" where
  "alloc n h = (fresh h, h\<lparr>cells := (cells h)(fresh h := n), fresh := Suc (fresh h)\<rparr>)"

definition setStyle :: "addr \<Rightarrow> Style \<Rightarrow> heap \<Rightarrow> heap" where
  "setStyle a s h = h\<lparr>cells := (cells h)(a := (cells h a)\<lparr>Style := s\<rparr>)\<rparr>"

text \<open>
  \<^verbatim>\<open>yaml.RNode\<close> wraps a pointer to a node, which may be nil; a \<^verbatim>\<open>*yaml.RNode\<close>
  is \<open>RNode option\<close>, with \<open>None\<close> for nil. The visitor never writes an RNode, so
  an RNode is identified with the pointer it wraps.
\<close>

datatype RNode = RNode (rvalue: "addr option")

definition NewRNode :: "addr \<Rightarrow> RNode option" where
  "NewRNode a = Some (RNode (Some a))"

text \<open>A Go call returns its results or panics.\<close>

datatype 'a outcome = Panic | Return 'a

text \<open>
  Modelled from the spec: \<^verbatim>\<open>RNode.YNode\<close> is not in visitor.go. The node reference of
  a source is the node the source holds at the position. The accessor gives nil for a nil
  RNode and for an RNode that wraps no node; for an RNode that wraps a document node it
  gives the document's first child, reading the store, and indexing the children of a
  document that has none panics; otherwise it gives the wrapped node.
\<close>

definition YNode :: "heap \<Rightarrow> RNode option \<Rightarrow> addr option outcome" where
  "YNode h rn =
    (case rn of
       None \<Rightarrow> Return None
     | Some r \<Rightarrow>
         (case rvalue r of
            None \<Rightarrow> Return None
          | Some a \<Rightarrow>
              if Kind (cells h a) = DocumentNode then
                (case Content (cells h a) of [] \<Rightarrow> Panic | c # cs \<Rightarrow> Return (Some c))
              else Return (Some a)))"

text \<open>A pointer of the store: it wraps no node, or a node that is allocated.\<close>

definition allocated :: "heap \<Rightarrow> RNode option \<Rightarrow> bool" where
  "allocated h rn =
    (case rn of
       None \<Rightarrow> True
     | Some r \<Rightarrow> (case rvalue r of None \<Rightarrow> True | Some a \<Rightarrow> a < fresh h))"

text \<open>
  \<^verbatim>\<open>walk.Sources\<close>: the three pointers of one position, read through the accessors
  \<^verbatim>\<open>Origin()\<close>, \<^verbatim>\<open>Updated()\<close> and \<^verbatim>\<open>Dest()\<close>.
\<close>

record Sources =
  Origin :: "RNode option"
  Updated :: "RNode option"
  Dest :: "RNode option"

datatype ListKind = AssociativeList | NonAssociativeList

subsection \<open>What the visitor imports\<close>

datatype error = Error string

text \<open>
  The visitor calls \<^verbatim>\<open>yaml.IsNull\<close>, \<^verbatim>\<open>yaml.IsEmpty\<close> and
  \<^verbatim>\<open>RNode.String\<close>, uses the style constants \<^verbatim>\<open>yaml.FlowStyle\<close> and
  \<^verbatim>\<open>yaml.SingleQuotedStyle\<close>, and returns \<^verbatim>\<open>walk.ClearNode\<close>. None of them is
  defined in visitor.go, so the visitor is embedded over any choice of them: a value of
  \<open>lib\<close> is one such choice. The two predicates and the renderer read the store and
  do not write it.
\<close>

record lib =
  IsNull :: "heap \<Rightarrow> RNode option \<Rightarrow> bool"
  IsEmpty :: "heap \<Rightarrow> RNode option \<Rightarrow> bool"
  String :: "heap \<Rightarrow> RNode option \<Rightarrow> string \<times> error option"
  FlowStyle :: Style
  SingleQuotedStyle :: Style
  ClearNode :: "RNode option"

subsection \<open>The visitor\<close>

text \<open>
  \<^verbatim>\<open>VisitScalar\<close> and \<^verbatim>\<open>getStrValues\<close> call \<^verbatim>\<open>YNode()\<close>, so they panic when it
  does; \<^verbatim>\<open>VisitScalar\<close> also reads \<^verbatim>\<open>.Value\<close> through the result, which panics
  when the result is nil.
\<close>

type_synonym visited = "(RNode option \<times> error option) outcome \<times> heap"

definition VisitMap :: "lib \<Rightarrow> heap \<Rightarrow> Sources \<Rightarrow> visited" where
  "VisitMap L h nodes =
    (if IsNull L h (Updated nodes) \<or> IsNull L h (Dest nodes) then
       (Return (ClearNode L, None), h)
     else if IsEmpty L h (Dest nodes) \<and> IsEmpty L h (Updated nodes) then
       (Return (ClearNode L, None), h)
     else if IsEmpty L h (Dest nodes) then
       (case alloc (Node0\<lparr>Kind := MappingNode\<rparr>) h of
          (a, h') \<Rightarrow> (Return (NewRNode a, None), h'))
     else (Return (Dest nodes, None), h))"

definition visitAList :: "lib \<Rightarrow> heap \<Rightarrow> Sources \<Rightarrow> visited" where
  "visitAList L h nodes =
    (if IsEmpty L h (Updated nodes) \<and> \<not> IsEmpty L h (Origin nodes) then
       (Return (ClearNode L, None), h)
     else if IsEmpty L h (Dest nodes) then
       (case alloc (Node0\<lparr>Kind := SequenceNode\<rparr>) h of
          (a, h') \<Rightarrow> (Return (NewRNode a, None), h'))
     else (Return (Dest nodes, None), h))"

definition VisitScalar :: "lib \<Rightarrow> heap \<Rightarrow> Sources \<Rightarrow> visited" where
  "VisitScalar L h nodes =
    (if IsNull L h (Updated nodes) \<or> IsNull L h (Dest nodes) then
       (Return (None, None), h)
     else if IsEmpty L h (Updated nodes) \<noteq> IsEmpty L h (Origin nodes) then
       (Return (Updated nodes, None), h)
     else if IsEmpty L h (Updated nodes) \<and> IsEmpty L h (Origin nodes) then
       (Return (Dest nodes, None), h)
     else
       (case YNode h (Updated nodes) of
          Panic \<Rightarrow> (Panic, h)
        | Return None \<Rightarrow> (Panic, h)
        | Return (Some u) \<Rightarrow>
            (case YNode h (Origin nodes) of
               Panic \<Rightarrow> (Panic, h)
             | Return None \<Rightarrow> (Panic, h)
             | Return (Some og) \<Rightarrow>
                 if Value (cells h u) \<noteq> Value (cells h og) then
                   (Return (Updated nodes, None), h)
                 else (Return (Dest nodes, None), h))))"

text \<open>
  \<^verbatim>\<open>strValues\<close>; its first and last fields are renamed, since \<open>Origin\<close> and
  \<open>Dest\<close> are the accessors of \<open>Sources\<close>.
\<close>

record strValues =
  strOrigin :: string
  Update :: string
  strDest :: string

definition strValues0 :: strValues where
  "strValues0 = \<lparr>strOrigin = [], Update = [], strDest = []\<rparr>"

text \<open>
  \<^verbatim>\<open>getStrValues\<close> defers, for each node it renders, a closure that writes the saved
  style back. A deferred closure is the pointer whose node it writes and the style it
  saved; it calls \<^verbatim>\<open>YNode()\<close> again when it runs. The closures run when the function
  returns or panics, the last deferred first, and all of them run even if one panics.
  \<open>run_deferred\<close> gives whether one did, and the store they leave.
\<close>

type_synonym deferred = "RNode option \<times> Style"

fun run_deferred :: "deferred list \<Rightarrow> heap \<Rightarrow> bool \<times> heap" where
  "run_deferred [] h = (False, h)"
| "run_deferred ((rn, s) # ds) h =
    (case YNode h rn of
       Return (Some a) \<Rightarrow> run_deferred ds (setStyle a s h)
     | Return None \<Rightarrow> (True, snd (run_deferred ds h))
     | Panic \<Rightarrow> (True, snd (run_deferred ds h)))"

text \<open>
  The body up to its return statement or its panic: the outcome, the stack of deferred
  closures (the last deferred at the head) and the store at that moment. Each of the
  three blocks is entered when the pointer and its node are not nil, which is when
  \<open>YNode\<close> returns a node.
\<close>

definition getStrValues_body ::
  "lib \<Rightarrow> heap \<Rightarrow> Sources \<Rightarrow> (strValues \<times> error option) outcome \<times> deferred list \<times> heap" where
  "getStrValues_body L h0 nodes =
    (case YNode h0 (Updated nodes) of
       Panic \<Rightarrow> (Panic, [], h0)
     | Return yu \<Rightarrow>
    (case (case yu of
             None \<Rightarrow> (([], None), [], h0)
           | Some a \<Rightarrow>
               (let s = Style (cells h0 a);
                    h = setStyle a (FlowStyle L OR SingleQuotedStyle L) h0
                in (String L h (Updated nodes), [(Updated nodes, s)], h)))
     of ((uStr, err1), ds1, h1) \<Rightarrow>
       if err1 \<noteq> None then (Return (strValues0, err1), ds1, h1)
       else
    (case YNode h1 (Origin nodes) of
       Panic \<Rightarrow> (Panic, ds1, h1)
     | Return yo \<Rightarrow>
    (case (case yo of
             None \<Rightarrow> (([], None), ds1, h1)
           | Some a \<Rightarrow>
               (let s = Style (cells h1 a);
                    h = setStyle a (FlowStyle L OR SingleQuotedStyle L) h1
                in (String L h (Origin nodes), (Origin nodes, s) # ds1, h)))
     of ((oStr, err2), ds2, h2) \<Rightarrow>
       if err2 \<noteq> None then (Return (strValues0, err2), ds2, h2)
       else
    (case YNode h2 (Dest nodes) of
       Panic \<Rightarrow> (Panic, ds2, h2)
     | Return yd \<Rightarrow>
    (case (case yd of
             None \<Rightarrow> (([], None), ds2, h2)
           | Some a \<Rightarrow>
               (let s = Style (cells h2 a);
                    h = setStyle a (FlowStyle L OR SingleQuotedStyle L) h2
                in (String L h (Dest nodes), (Dest nodes, s) # ds2, h)))
     of ((dStr, err3), ds3, h3) \<Rightarrow>
       if err3 \<noteq> None then (Return (strValues0, err3), ds3, h3)
       else
         (Return (\<lparr>strOrigin = oStr, Update = uStr, strDest = dStr\<rparr>, None), ds3, h3)))))))"

definition getStrValues ::
  "lib \<Rightarrow> heap \<Rightarrow> Sources \<Rightarrow> (strValues \<times> error option) outcome \<times> heap" where
  "getStrValues L h nodes =
    (case getStrValues_body L h nodes of
       (r, ds, h') \<Rightarrow>
         (case run_deferred ds h' of
            (panicked, h'') \<Rightarrow> (if panicked then Panic else r, h'')))"

definition visitNAList :: "lib \<Rightarrow> heap \<Rightarrow> Sources \<Rightarrow> visited" where
  "visitNAList L h nodes =
    (if IsNull L h (Updated nodes) \<or> IsNull L h (Dest nodes) then
       (Return (ClearNode L, None), h)
     else if IsEmpty L h (Updated nodes) \<noteq> IsEmpty L h (Origin nodes) then
       (Return (Updated nodes, None), h)
     else if IsEmpty L h (Updated nodes) \<and> IsEmpty L h (Origin nodes) then
       (Return (Dest nodes, None), h)
     else
       (case getStrValues L h nodes of
          (Panic, h') \<Rightarrow> (Panic, h')
        | (Return (values, err), h') \<Rightarrow>
            if err \<noteq> None then (Return (None, err), h')
            else if Update values \<noteq> strOrigin values then (Return (Updated nodes, None), h')
            else (Return (Dest nodes, None), h')))"

definition VisitList :: "lib \<Rightarrow> heap \<Rightarrow> Sources \<Rightarrow> ListKind \<Rightarrow> visited" where
  "VisitList L h nodes kind =
    (if kind = AssociativeList then visitAList L h nodes else visitNAList L h nodes)"

subsection \<open>An instance of the imports\<close>

text \<open>
  The predicates and the renderer of \<open>lib\<close> are total. In this instance an RNode on
  which \<open>YNode\<close> panics (a document without a child) counts as having no node.
\<close>

text \<open>
  Modelled from the spec: \<^verbatim>\<open>yaml.IsNull\<close> is not in visitor.go. The spec's
  explicit-null state: the position exists and holds an explicit null value, which a node
  carries as the YAML null tag.
\<close>

definition spec_IsNull :: "heap \<Rightarrow> RNode option \<Rightarrow> bool" where
  "spec_IsNull h rn =
    (case YNode h rn of
       Return (Some a) \<Rightarrow> Tag (cells h a) = ''!!null''
     | Return None \<Rightarrow> False
     | Panic \<Rightarrow> False)"

text \<open>
  Modelled from the spec: \<^verbatim>\<open>yaml.IsEmpty\<close> is not in visitor.go. The spec's
  empty/absent: there is no node at the position, or the node holds nothing, which is an
  explicit null, a map without a field or a list without an item.
\<close>

definition spec_IsEmpty :: "heap \<Rightarrow> RNode option \<Rightarrow> bool" where
  "spec_IsEmpty h rn =
    (case YNode h rn of
       Return (Some a) \<Rightarrow>
         Tag (cells h a) = ''!!null''
         \<or> (Kind (cells h a) = MappingNode \<and> Content (cells h a) = [])
         \<or> (Kind (cells h a) = SequenceNode \<and> Content (cells h a) = [])
     | Return None \<Rightarrow> True
     | Panic \<Rightarrow> True)"

text \<open>
  Modelled from the spec: \<^verbatim>\<open>RNode.String\<close> is not in visitor.go. The spec's canonical
  comparator renders a node to a string and fails only if the node cannot be rendered. This
  renderer writes a scalar as its value and a list or a map as its children's values, on
  one line when the flow style is set and one child per line otherwise; a document is
  written as its first child; a node of no kind cannot be rendered. A nil pointer renders
  as the empty string.
\<close>

definition spec_String :: "heap \<Rightarrow> RNode option \<Rightarrow> string \<times> error option" where
  "spec_String h rn =
    (case YNode h rn of
       Panic \<Rightarrow> ([], Some (Error ''cannot encode a document without a node''))
     | Return None \<Rightarrow> ([], None)
     | Return (Some a) \<Rightarrow>
         (let n = cells h a in
          if Kind n = ScalarNode then (Value n, None)
          else if Kind n = SequenceNode \<or> Kind n = MappingNode then
            (if Style n AND 32 \<noteq> 0 then
               ''['' @ concat (map (\<lambda>c. Value (cells h c) @ '','') (Content n)) @ '']''
             else concat (map (\<lambda>c. ''- '' @ Value (cells h c) @ ''; '') (Content n)),
             None)
          else ([], Some (Error ''cannot encode node with unknown kind''))))"

text \<open>
  Modelled from the spec: the style constants and \<^verbatim>\<open>walk.ClearNode\<close> are not in
  visitor.go. The two styles are distinct bits of the style word. Clear is a distinguished
  value, signalled distinctly from no value (nil): a pointer to an RNode that wraps no node.
\<close>

definition spec_lib :: lib where
  "spec_lib = \<lparr>IsNull = spec_IsNull, IsEmpty = spec_IsEmpty, String = spec_String,
                FlowStyle = 32, SingleQuotedStyle = 4, ClearNode = Some (RNode None)\<rparr>"

subsection \<open>Building example stores\<close>

definition heap_of :: "Node list \<Rightarrow> heap" where
  "heap_of ns = \<lparr>cells = (\<lambda>a. if a < length ns then ns ! a else Node0), fresh = length ns\<rparr>"

definition scalarNode :: "string \<Rightarrow> string \<Rightarrow> Node" where
  "scalarNode t v = Node0\<lparr>Kind := ScalarNode, Tag := t, Value := v\<rparr>"

definition nullNode :: Node where
  "nullNode = scalarNode ''!!null'' ''null''"

definition seqNode :: "Style \<Rightarrow> addr list \<Rightarrow> Node" where
  "seqNode s cs = Node0\<lparr>Kind := SequenceNode, Style := s, Tag := ''!!seq'', Content := cs\<rparr>"

definition mapNode :: "addr list \<Rightarrow> Node" where
  "mapNode cs = Node0\<lparr>Kind := MappingNode, Tag := ''!!map'', Content := cs\<rparr>"

definition docNode :: "addr list \<Rightarrow> Node" where
  "docNode cs = Node0\<lparr>Kind := DocumentNode, Content := cs\<rparr>"

text \<open>
  One store for the examples. Addresses 0 to 3 are the scalars \<open>1\<close>, \<open>2\<close>, \<open>1\<close> and
  \<open>3\<close>; 4 is an explicit null; 5 is the string \<open>"1"\<close>, double-quoted and with comments;
  6 is the list \<open>[1, 2]\<close> in block style, 7 the same list in flow style, 8 the list
  \<open>[2, 1]\<close>; 9 is a map with the key at 0 and the value at 1; 10 is a node of no kind,
  which does not render; 11 is a second map, with the key at 2 and the value at 1; 12 is
  the map \<open>{}\<close>, without a field; 13, 14 and 15 are documents whose roots are the
  scalars at 0, 1 and 2; 16 is a document whose root is the list at 6.
\<close>

definition docs :: heap where
  "docs = heap_of
    [scalarNode ''!!int'' ''1'', scalarNode ''!!int'' ''2'', scalarNode ''!!int'' ''1'',
     scalarNode ''!!int'' ''3'', nullNode,
     (scalarNode ''!!str'' ''1'')\<lparr>Style := 2, HeadComment := ''# head'', LineComment := ''# line'',
        FootComment := ''# foot''\<rparr>,
     seqNode 0 [0, 1], seqNode 32 [0, 1], seqNode 0 [1, 0], mapNode [0, 1], Node0,
     mapNode [2, 1], mapNode [], docNode [0], docNode [1], docNode [2], docNode [6]]"

definition src :: "RNode option \<Rightarrow> RNode option \<Rightarrow> RNode option \<Rightarrow> Sources" where
  "src og u d = \<lparr>Origin = og, Updated = u, Dest = d\<rparr>"

section \<open>Properties\<close>

subsection \<open>Helper facts\<close>

lemmas example_defs = docs_def heap_of_def scalarNode_def nullNode_def seqNode_def mapNode_def
  docNode_def Node0_def src_def NewRNode_def YNode_def spec_lib_def spec_IsNull_def
  spec_IsEmpty_def spec_String_def

lemma setStyle_restore: "setStyle a (Style (cells h a)) (setStyle a s h) = h"
  by (simp add: setStyle_def)

text \<open>Writing a style changes neither kinds nor children, so \<open>YNode\<close> is as before.\<close>

lemma YNode_setStyle: "YNode (setStyle a s h) rn = YNode h rn"
  by (simp add: YNode_def setStyle_def split: option.splits)

text \<open>
  Running the deferred closures on the store the body leaves gives the store the body
  started from, wherever the body returned or panicked, and no closure panics. Two of the
  three pointers may hold the same node: the closure deferred second then saves the
  overridden style, and it is the order of the closures (last deferred, first run) that
  puts the original style back last.
\<close>

lemma run_deferred_body:
  "run_deferred (fst (snd (getStrValues_body L h nodes)))
     (snd (snd (getStrValues_body L h nodes))) = (False, h)"
  by (simp add: getStrValues_body_def Let_def setStyle_restore YNode_setStyle
      split: outcome.splits option.splits prod.splits)

lemma getStrValues_heap: "snd (getStrValues L h nodes) = h"
  using run_deferred_body [of L h nodes]
  by (cases "getStrValues_body L h nodes") (simp add: getStrValues_def)

lemma getStrValues_fst:
  "fst (getStrValues L h nodes) = fst (getStrValues_body L h nodes)"
  using run_deferred_body [of L h nodes]
  by (cases "getStrValues_body L h nodes") (simp add: getStrValues_def)


lemma fresh_not_allocated: "allocated h rn \<Longrightarrow> NewRNode (fresh h) \<noteq> rn"
  by (auto simp: allocated_def NewRNode_def)

subsection \<open>The decision rules\<close>

text \<open>
  C1 (as amended). At a map or a non-associative-list position, when Updated or Dest is an
  explicit null, the rule returns the Clear sentinel; at a scalar position the scalar rule
  returns no value (nil). All three return no error and leave the store as it was.
\<close>

theorem explicit_null_dominance:
  assumes "IsNull L h (Updated nodes) \<or> IsNull L h (Dest nodes)"
  shows "VisitMap L h nodes = (Return (ClearNode L, None), h)
       \<and> visitNAList L h nodes = (Return (ClearNode L, None), h)
       \<and> VisitList L h nodes NonAssociativeList = (Return (ClearNode L, None), h)
       \<and> VisitScalar L h nodes = (Return (None, None), h)"
  using assms
  by (simp add: VisitMap_def visitNAList_def VisitList_def VisitScalar_def)

theorem explicit_null_dominance_witness:
  "IsNull spec_lib docs (Updated (src (NewRNode 0) (NewRNode 4) (NewRNode 2)))
   \<and> VisitMap spec_lib docs (src (NewRNode 0) (NewRNode 4) (NewRNode 2))
       = (Return (ClearNode spec_lib, None), docs)
   \<and> VisitList spec_lib docs (src (NewRNode 0) (NewRNode 4) (NewRNode 2)) NonAssociativeList
       = (Return (ClearNode spec_lib, None), docs)
   \<and> VisitScalar spec_lib docs (src (NewRNode 0) (NewRNode 4) (NewRNode 2))
       = (Return (None, None), docs)"
proof -
  have null: "IsNull spec_lib docs (Updated (src (NewRNode 0) (NewRNode 4) (NewRNode 2)))"
    by (simp add: example_defs)
  then have "IsNull spec_lib docs (Updated (src (NewRNode 0) (NewRNode 4) (NewRNode 2)))
     \<or> IsNull spec_lib docs (Dest (src (NewRNode 0) (NewRNode 4) (NewRNode 2)))"
    by (rule disjI1)
  from explicit_null_dominance [OF this] null show ?thesis
    by blast
qed

text \<open>
  C1 as stated fails at an associative-list position: with Updated an explicit null and
  Origin and Dest nil, the associative-list rule returns a new list node, not Clear.
\<close>

theorem explicit_null_alist_counterexample:
  "IsNull spec_lib docs (Updated (src None (NewRNode 4) None))
   \<and> fst (VisitList spec_lib docs (src None (NewRNode 4) None) AssociativeList)
       = Return (NewRNode 17, None)
   \<and> NewRNode 17 \<noteq> ClearNode spec_lib"
  by (simp add: VisitList_def visitAList_def alloc_def example_defs)

text \<open>
  C2. At an associative-list position, when Updated is empty and Origin is not, the
  associative-list rule returns Clear, whatever Dest is.
\<close>

theorem alist_deletion_propagates:
  assumes "\<not> IsEmpty L h (Origin nodes)" and "IsEmpty L h (Updated nodes)"
  shows "visitAList L h nodes = (Return (ClearNode L, None), h)
       \<and> VisitList L h nodes AssociativeList = (Return (ClearNode L, None), h)"
  using assms by (simp add: visitAList_def VisitList_def)

theorem alist_deletion_propagates_witness:
  "\<not> IsEmpty spec_lib docs (Origin (src (NewRNode 9) None (NewRNode 11)))
   \<and> IsEmpty spec_lib docs (Updated (src (NewRNode 9) None (NewRNode 11)))
   \<and> Dest (src (NewRNode 9) None (NewRNode 11)) = NewRNode 11
   \<and> \<not> IsEmpty spec_lib docs (Dest (src (NewRNode 9) None (NewRNode 11)))
   \<and> VisitList spec_lib docs (src (NewRNode 9) None (NewRNode 11)) AssociativeList
       = (Return (ClearNode spec_lib, None), docs)"
proof -
  have og: "\<not> IsEmpty spec_lib docs (Origin (src (NewRNode 9) None (NewRNode 11)))"
    and u: "IsEmpty spec_lib docs (Updated (src (NewRNode 9) None (NewRNode 11)))"
    and d: "Dest (src (NewRNode 9) None (NewRNode 11)) = NewRNode 11"
      "\<not> IsEmpty spec_lib docs (Dest (src (NewRNode 9) None (NewRNode 11)))"
    by (simp_all add: example_defs)
  from alist_deletion_propagates [OF og u] og u d show ?thesis
    by blast
qed

text \<open>
  C3 (as amended). At a scalar position where Origin and Updated are both present (not
  empty, not null) with equal values, and Dest is not an explicit null, the scalar rule
  returns Dest itself, whatever Dest holds (nil included). The value of a source is the
  value of the node \<open>YNode\<close> gives for it: the root of a document, for a source that
  is a whole document.
\<close>

theorem scalar_noop:
  assumes "\<not> IsEmpty L h (Origin nodes)" and "\<not> IsEmpty L h (Updated nodes)"
    and "\<not> IsNull L h (Updated nodes)" and "\<not> IsNull L h (Dest nodes)"
    and "YNode h (Origin nodes) = Return (Some og)"
    and "YNode h (Updated nodes) = Return (Some u)"
    and "Value (cells h og) = Value (cells h u)"
  shows "VisitScalar L h nodes = (Return (Dest nodes, None), h)"
  using assms by (simp add: VisitScalar_def)

theorem scalar_noop_witness:
  "Value (cells docs 0) = Value (cells docs 2)
   \<and> Value (cells docs 3) \<noteq> Value (cells docs 0)
   \<and> VisitScalar spec_lib docs (src (NewRNode 0) (NewRNode 2) (NewRNode 3))
       = (Return (NewRNode 3, None), docs)
   \<and> YNode docs (NewRNode 13) = Return (Some 0)
   \<and> YNode docs (NewRNode 15) = Return (Some 2)
   \<and> VisitScalar spec_lib docs (src (NewRNode 13) (NewRNode 15) (NewRNode 14))
       = (Return (NewRNode 14, None), docs)"
proof -
  have "VisitScalar spec_lib docs (src (NewRNode 0) (NewRNode 2) (NewRNode 3))
      = (Return (Dest (src (NewRNode 0) (NewRNode 2) (NewRNode 3)), None), docs)"
    by (rule scalar_noop [where og = 0 and u = 2]) (simp_all add: example_defs)
  moreover have "VisitScalar spec_lib docs (src (NewRNode 13) (NewRNode 15) (NewRNode 14))
      = (Return (Dest (src (NewRNode 13) (NewRNode 15) (NewRNode 14)), None), docs)"
    by (rule scalar_noop [where og = 0 and u = 2]) (simp_all add: example_defs)
  ultimately show ?thesis
    by (simp add: example_defs)
qed

text \<open>
  C3 as stated fails when Dest is an explicit null: Origin and Updated are both \<open>1\<close>, and
  the scalar rule returns nil, not Dest.
\<close>

theorem scalar_noop_counterexample:
  "\<not> IsEmpty spec_lib docs (Origin (src (NewRNode 0) (NewRNode 2) (NewRNode 4)))
   \<and> \<not> IsEmpty spec_lib docs (Updated (src (NewRNode 0) (NewRNode 2) (NewRNode 4)))
   \<and> \<not> IsNull spec_lib docs (Origin (src (NewRNode 0) (NewRNode 2) (NewRNode 4)))
   \<and> \<not> IsNull spec_lib docs (Updated (src (NewRNode 0) (NewRNode 2) (NewRNode 4)))
   \<and> YNode docs (Origin (src (NewRNode 0) (NewRNode 2) (NewRNode 4))) = Return (Some 0)
   \<and> YNode docs (Updated (src (NewRNode 0) (NewRNode 2) (NewRNode 4))) = Return (Some 2)
   \<and> Value (cells docs 0) = Value (cells docs 2)
   \<and> VisitScalar spec_lib docs (src (NewRNode 0) (NewRNode 2) (NewRNode 4))
       = (Return (None, None), docs)
   \<and> Dest (src (NewRNode 0) (NewRNode 2) (NewRNode 4)) \<noteq> None"
  by (simp add: VisitScalar_def example_defs)

text \<open>
  C4 (as amended). At a scalar position where neither Updated nor Dest is an explicit
  null, Origin and Updated are not both empty, and Updated's value differs from Origin's,
  the scalar rule returns Updated, whatever Dest holds. The value of a source is the
  value of the node \<open>YNode\<close> gives for it.
\<close>

theorem scalar_fast_forward:
  assumes "\<not> IsNull L h (Updated nodes)" and "\<not> IsNull L h (Dest nodes)"
    and "\<not> (IsEmpty L h (Updated nodes) \<and> IsEmpty L h (Origin nodes))"
    and "YNode h (Origin nodes) = Return (Some og)"
    and "YNode h (Updated nodes) = Return (Some u)"
    and "Value (cells h u) \<noteq> Value (cells h og)"
  shows "VisitScalar L h nodes = (Return (Updated nodes, None), h)"
  using assms by (auto simp: VisitScalar_def)

theorem scalar_fast_forward_witness:
  "Value (cells docs 1) \<noteq> Value (cells docs 0)
   \<and> Value (cells docs 3) \<noteq> Value (cells docs 0)
   \<and> Value (cells docs 3) \<noteq> Value (cells docs 1)
   \<and> VisitScalar spec_lib docs (src (NewRNode 0) (NewRNode 1) (NewRNode 3))
       = (Return (NewRNode 1, None), docs)
   \<and> YNode docs (NewRNode 13) = Return (Some 0)
   \<and> YNode docs (NewRNode 14) = Return (Some 1)
   \<and> VisitScalar spec_lib docs (src (NewRNode 13) (NewRNode 14) (NewRNode 3))
       = (Return (NewRNode 14, None), docs)"
proof -
  have "VisitScalar spec_lib docs (src (NewRNode 0) (NewRNode 1) (NewRNode 3))
      = (Return (Updated (src (NewRNode 0) (NewRNode 1) (NewRNode 3)), None), docs)"
    by (rule scalar_fast_forward [where og = 0 and u = 1]) (simp_all add: example_defs)
  moreover have "VisitScalar spec_lib docs (src (NewRNode 13) (NewRNode 14) (NewRNode 3))
      = (Return (Updated (src (NewRNode 13) (NewRNode 14) (NewRNode 3)), None), docs)"
    by (rule scalar_fast_forward [where og = 0 and u = 1]) (simp_all add: example_defs)
  ultimately show ?thesis
    by (simp add: example_defs)
qed

text \<open>
  C4 as stated fails in three ways, each with Updated's value different from Origin's.
  Dest an explicit null: Origin is \<open>1\<close>, Updated is \<open>2\<close>, and the scalar rule returns
  nil, not Updated. Updated an explicit null: Origin is \<open>1\<close>, Dest is \<open>3\<close>, and the rule
  returns nil, not Updated. Origin and Updated both empty: Origin is an explicit null,
  Updated is the map \<open>{}\<close>, Dest is \<open>3\<close>, and the rule returns Dest, not Updated.
\<close>

theorem scalar_fast_forward_counterexample:
  "Value (cells docs 1) \<noteq> Value (cells docs 0)
   \<and> YNode docs (Origin (src (NewRNode 0) (NewRNode 1) (NewRNode 4))) = Return (Some 0)
   \<and> YNode docs (Updated (src (NewRNode 0) (NewRNode 1) (NewRNode 4))) = Return (Some 1)
   \<and> VisitScalar spec_lib docs (src (NewRNode 0) (NewRNode 1) (NewRNode 4))
       = (Return (None, None), docs)
   \<and> Updated (src (NewRNode 0) (NewRNode 1) (NewRNode 4)) \<noteq> None
   \<and> Value (cells docs 4) \<noteq> Value (cells docs 0)
   \<and> YNode docs (Updated (src (NewRNode 0) (NewRNode 4) (NewRNode 3))) = Return (Some 4)
   \<and> VisitScalar spec_lib docs (src (NewRNode 0) (NewRNode 4) (NewRNode 3))
       = (Return (None, None), docs)
   \<and> Updated (src (NewRNode 0) (NewRNode 4) (NewRNode 3)) \<noteq> None
   \<and> Value (cells docs 12) \<noteq> Value (cells docs 4)
   \<and> YNode docs (Origin (src (NewRNode 4) (NewRNode 12) (NewRNode 3))) = Return (Some 4)
   \<and> YNode docs (Updated (src (NewRNode 4) (NewRNode 12) (NewRNode 3))) = Return (Some 12)
   \<and> \<not> IsNull spec_lib docs (Updated (src (NewRNode 4) (NewRNode 12) (NewRNode 3)))
   \<and> \<not> IsNull spec_lib docs (Dest (src (NewRNode 4) (NewRNode 12) (NewRNode 3)))
   \<and> IsEmpty spec_lib docs (Updated (src (NewRNode 4) (NewRNode 12) (NewRNode 3)))
   \<and> IsEmpty spec_lib docs (Origin (src (NewRNode 4) (NewRNode 12) (NewRNode 3)))
   \<and> VisitScalar spec_lib docs (src (NewRNode 4) (NewRNode 12) (NewRNode 3))
       = (Return (NewRNode 3, None), docs)
   \<and> Updated (src (NewRNode 4) (NewRNode 12) (NewRNode 3)) \<noteq> NewRNode 3"
  by (simp add: VisitScalar_def example_defs)




text \<open>
  C6 (as amended). At a map position where Dest is empty and not an explicit null, and
  Updated is not empty (it holds a node that is neither an explicit null nor a map without
  a field) and not an explicit null, the map rule returns a pointer to a node it has just
  allocated: an empty mapping node, at an address that was not allocated before, so the
  pointer is none of Origin, Updated and Dest; the nodes that were in the store are
  unchanged.
\<close>

theorem map_fresh_seed:
  assumes "IsEmpty L h (Dest nodes)" and "\<not> IsNull L h (Dest nodes)"
    and "\<not> IsEmpty L h (Updated nodes)" and "\<not> IsNull L h (Updated nodes)"
    and "allocated h (Origin nodes)" and "allocated h (Updated nodes)"
    and "allocated h (Dest nodes)"
  shows "fst (VisitMap L h nodes) = Return (NewRNode (fresh h), None)
       \<and> cells (snd (VisitMap L h nodes)) (fresh h) = Node0\<lparr>Kind := MappingNode\<rparr>
       \<and> Content (cells (snd (VisitMap L h nodes)) (fresh h)) = []
       \<and> NewRNode (fresh h) \<noteq> Origin nodes
       \<and> NewRNode (fresh h) \<noteq> Updated nodes
       \<and> NewRNode (fresh h) \<noteq> Dest nodes
       \<and> (\<forall>a. a \<noteq> fresh h \<longrightarrow> cells (snd (VisitMap L h nodes)) a = cells h a)"
  using assms fresh_not_allocated [of h]
  by (simp add: VisitMap_def alloc_def Node0_def)

theorem map_fresh_seed_witness:
  "IsEmpty spec_lib docs (Dest (src (NewRNode 9) (NewRNode 11) None))
   \<and> \<not> IsEmpty spec_lib docs (Updated (src (NewRNode 9) (NewRNode 11) None))
   \<and> \<not> IsNull spec_lib docs (Updated (src (NewRNode 9) (NewRNode 11) None))
   \<and> fresh docs = 17
   \<and> fst (VisitMap spec_lib docs (src (NewRNode 9) (NewRNode 11) None))
       = Return (NewRNode 17, None)
   \<and> cells (snd (VisitMap spec_lib docs (src (NewRNode 9) (NewRNode 11) None))) 17
       = Node0\<lparr>Kind := MappingNode\<rparr>
   \<and> NewRNode 17 \<noteq> Updated (src (NewRNode 9) (NewRNode 11) None)"
proof -
  have hyps: "IsEmpty spec_lib docs (Dest (src (NewRNode 9) (NewRNode 11) None))"
    "\<not> IsNull spec_lib docs (Dest (src (NewRNode 9) (NewRNode 11) None))"
    "\<not> IsEmpty spec_lib docs (Updated (src (NewRNode 9) (NewRNode 11) None))"
    "\<not> IsNull spec_lib docs (Updated (src (NewRNode 9) (NewRNode 11) None))"
    "allocated docs (Origin (src (NewRNode 9) (NewRNode 11) None))"
    "allocated docs (Updated (src (NewRNode 9) (NewRNode 11) None))"
    "allocated docs (Dest (src (NewRNode 9) (NewRNode 11) None))"
    by (simp_all add: allocated_def example_defs)
  have f: "fresh docs = 17"
    by (simp add: example_defs)
  from map_fresh_seed [OF hyps] hyps f show ?thesis
    by simp
qed

text \<open>
  C6 as stated fails when Updated is present and not null but holds nothing: Dest is nil,
  Updated is the map \<open>{}\<close>, and the map rule returns Clear, not a new map node. The store
  has no new node.
\<close>

theorem map_fresh_seed_counterexample:
  "Dest (src (NewRNode 9) (NewRNode 12) None) = None
   \<and> YNode docs (Updated (src (NewRNode 9) (NewRNode 12) None)) = Return (Some 12)
   \<and> Kind (cells docs 12) = MappingNode
   \<and> Content (cells docs 12) = []
   \<and> \<not> IsNull spec_lib docs (Updated (src (NewRNode 9) (NewRNode 12) None))
   \<and> \<not> IsNull spec_lib docs (Dest (src (NewRNode 9) (NewRNode 12) None))
   \<and> VisitMap spec_lib docs (src (NewRNode 9) (NewRNode 12) None)
       = (Return (ClearNode spec_lib, None), docs)
   \<and> ClearNode spec_lib \<noteq> NewRNode (fresh docs)
   \<and> allocated docs (ClearNode spec_lib)"
  by (simp add: VisitMap_def allocated_def example_defs)

text \<open>
  C7. The canonical comparator returns the store it was given, on every path: with the
  strings, or with the error of the first rendering that failed. So the style of every
  node is what it was before the call.
\<close>

theorem comparator_restores_styles:
  "snd (getStrValues L h nodes) = h
   \<and> Style (cells (snd (getStrValues L h nodes)) a) = Style (cells h a)"
  by (simp add: getStrValues_heap)

text \<open>
  The failure path in the example store: Dest is the node that does not render. Updated
  and Origin have been rendered by then, with their styles overridden, and the comparator
  returns the error and the store unchanged.
\<close>

theorem comparator_restores_styles_witness:
  "fst (getStrValues spec_lib docs (src (NewRNode 6) (NewRNode 7) (NewRNode 10)))
     = Return (strValues0, Some (Error ''cannot encode node with unknown kind''))
   \<and> Style (cells (snd (snd (getStrValues_body spec_lib docs
        (src (NewRNode 6) (NewRNode 7) (NewRNode 10))))) 6) \<noteq> Style (cells docs 6)
   \<and> snd (getStrValues spec_lib docs (src (NewRNode 6) (NewRNode 7) (NewRNode 10))) = docs"
proof -
  have "fst (getStrValues spec_lib docs (src (NewRNode 6) (NewRNode 7) (NewRNode 10)))
      = Return (strValues0, Some (Error ''cannot encode node with unknown kind''))"
    by (simp add: getStrValues_fst getStrValues_body_def setStyle_def example_defs)
  moreover have "Style (cells (snd (snd (getStrValues_body spec_lib docs
        (src (NewRNode 6) (NewRNode 7) (NewRNode 10))))) 6) \<noteq> Style (cells docs 6)"
    by (simp add: getStrValues_body_def setStyle_def example_defs)
  ultimately show ?thesis
    using comparator_restores_styles [of spec_lib docs "src (NewRNode 6) (NewRNode 7) (NewRNode 10)" 0]
    by simp
qed

text \<open>
  C8. The map rule and the associative-list rule always return, with a nil error. The
  scalar rule returns a nil error whenever it returns, and it returns (it does not panic)
  when \<open>IsEmpty\<close> holds of an Updated and of an Origin for which \<open>YNode\<close> gives no
  node. The non-associative-list rule can return an error: in the example store it does,
  when a node does not render.
\<close>

theorem only_nalist_errors:
  assumes "(\<forall>u. YNode h (Updated nodes) \<noteq> Return (Some u)) \<Longrightarrow> IsEmpty L h (Updated nodes)"
    and "(\<forall>og. YNode h (Origin nodes) \<noteq> Return (Some og)) \<Longrightarrow> IsEmpty L h (Origin nodes)"
  shows "(\<exists>p. fst (VisitMap L h nodes) = Return (p, None))
       \<and> (\<exists>p. fst (visitAList L h nodes) = Return (p, None))
       \<and> (\<exists>p. fst (VisitList L h nodes AssociativeList) = Return (p, None))
       \<and> (\<exists>p. fst (VisitScalar L h nodes) = Return (p, None))
       \<and> (\<forall>L' h' nodes' p e. fst (VisitScalar L' h' nodes') = Return (p, e) \<longrightarrow> e = None)
       \<and> (\<exists>e. fst (visitNAList spec_lib docs (src (NewRNode 6) (NewRNode 7) (NewRNode 10)))
                 = Return (None, Some e))"
proof -
  have m: "\<exists>p. fst (VisitMap L h nodes) = Return (p, None)"
    by (simp add: VisitMap_def alloc_def)
  have al: "\<exists>p. fst (visitAList L h nodes) = Return (p, None)"
    by (simp add: visitAList_def alloc_def)
  then have vl: "\<exists>p. fst (VisitList L h nodes AssociativeList) = Return (p, None)"
    by (simp add: VisitList_def)
  have s: "\<exists>p. fst (VisitScalar L h nodes) = Return (p, None)"
  proof (cases "IsEmpty L h (Updated nodes) \<or> IsEmpty L h (Origin nodes)")
    case True
    then show ?thesis
      by (auto simp: VisitScalar_def)
  next
    case False
    with assms obtain u og where "YNode h (Updated nodes) = Return (Some u)"
      and "YNode h (Origin nodes) = Return (Some og)"
      by blast
    then show ?thesis
      by (simp add: VisitScalar_def)
  qed
  have s': "\<forall>L' h' nodes' p e. fst (VisitScalar L' h' nodes') = Return (p, e) \<longrightarrow> e = None"
    by (auto simp: VisitScalar_def split: outcome.splits option.splits if_splits)
  have n: "\<exists>e. fst (visitNAList spec_lib docs (src (NewRNode 6) (NewRNode 7) (NewRNode 10)))
                 = Return (None, Some e)"
    by (simp add: visitNAList_def getStrValues_def getStrValues_body_def setStyle_def
        example_defs)
  from m al vl s s' n show ?thesis
    by blast
qed

theorem only_nalist_errors_witness:
  "YNode docs (Updated (src (NewRNode 0) (NewRNode 1) None)) = Return (Some 1)
   \<and> YNode docs (Origin (src (NewRNode 0) (NewRNode 1) None)) = Return (Some 0)
   \<and> (\<exists>p. fst (VisitMap spec_lib docs (src (NewRNode 0) (NewRNode 1) None)) = Return (p, None))
   \<and> (\<exists>p. fst (visitAList spec_lib docs (src (NewRNode 0) (NewRNode 1) None)) = Return (p, None))
   \<and> (\<exists>p. fst (VisitScalar spec_lib docs (src (NewRNode 0) (NewRNode 1) None)) = Return (p, None))"
proof -
  have u: "YNode docs (Updated (src (NewRNode 0) (NewRNode 1) None)) = Return (Some 1)"
    and og: "YNode docs (Origin (src (NewRNode 0) (NewRNode 1) None)) = Return (Some 0)"
    by (simp_all add: example_defs)
  have "(\<exists>p. fst (VisitMap spec_lib docs (src (NewRNode 0) (NewRNode 1) None)) = Return (p, None))
       \<and> (\<exists>p. fst (visitAList spec_lib docs (src (NewRNode 0) (NewRNode 1) None)) = Return (p, None))
       \<and> (\<exists>p. fst (VisitList spec_lib docs (src (NewRNode 0) (NewRNode 1) None) AssociativeList)
                 = Return (p, None))
       \<and> (\<exists>p. fst (VisitScalar spec_lib docs (src (NewRNode 0) (NewRNode 1) None)) = Return (p, None))
       \<and> (\<forall>L' h' nodes' p e. fst (VisitScalar L' h' nodes') = Return (p, e) \<longrightarrow> e = None)
       \<and> (\<exists>e. fst (visitNAList spec_lib docs (src (NewRNode 6) (NewRNode 7) (NewRNode 10)))
                 = Return (None, Some e))"
  proof (rule only_nalist_errors)
    assume "\<forall>u. YNode docs (Updated (src (NewRNode 0) (NewRNode 1) None)) \<noteq> Return (Some u)"
    with u show "IsEmpty spec_lib docs (Updated (src (NewRNode 0) (NewRNode 1) None))"
      by blast
  next
    assume "\<forall>og. YNode docs (Origin (src (NewRNode 0) (NewRNode 1) None)) \<noteq> Return (Some og)"
    with og show "IsEmpty spec_lib docs (Origin (src (NewRNode 0) (NewRNode 1) None))"
      by blast
  qed
  with u og show ?thesis
    by blast
qed

text \<open>
  C9. At a position where Origin, Updated and Dest are all empty, the associative-list
  rule returns a pointer to an empty sequence node it has just allocated, which is not the
  Clear sentinel (a sentinel made before the call); the map rule returns Clear there.
\<close>

theorem alist_all_empty_seed:
  assumes "IsEmpty L h (Origin nodes)" and "IsEmpty L h (Updated nodes)"
    and "IsEmpty L h (Dest nodes)" and "allocated h (ClearNode L)"
  shows "fst (visitAList L h nodes) = Return (NewRNode (fresh h), None)
       \<and> fst (VisitList L h nodes AssociativeList) = Return (NewRNode (fresh h), None)
       \<and> cells (snd (visitAList L h nodes)) (fresh h) = Node0\<lparr>Kind := SequenceNode\<rparr>
       \<and> Content (cells (snd (visitAList L h nodes)) (fresh h)) = []
       \<and> NewRNode (fresh h) \<noteq> ClearNode L
       \<and> VisitMap L h nodes = (Return (ClearNode L, None), h)"
  using assms fresh_not_allocated [of h "ClearNode L"]
  by (simp add: visitAList_def VisitList_def VisitMap_def alloc_def Node0_def)

theorem alist_all_empty_seed_witness:
  "IsEmpty spec_lib docs (Origin (src None None None))
   \<and> IsEmpty spec_lib docs (Updated (src None None None))
   \<and> IsEmpty spec_lib docs (Dest (src None None None))
   \<and> fst (visitAList spec_lib docs (src None None None)) = Return (NewRNode 17, None)
   \<and> NewRNode 17 \<noteq> ClearNode spec_lib
   \<and> VisitMap spec_lib docs (src None None None) = (Return (ClearNode spec_lib, None), docs)"
proof -
  have hyps: "IsEmpty spec_lib docs (Origin (src None None None))"
    "IsEmpty spec_lib docs (Updated (src None None None))"
    "IsEmpty spec_lib docs (Dest (src None None None))"
    "allocated docs (ClearNode spec_lib)"
    by (simp_all add: allocated_def example_defs)
  have f: "fresh docs = 17"
    by (simp add: example_defs)
  from alist_all_empty_seed [OF hyps] hyps f show ?thesis
    by simp
qed

text \<open>
  C10 (as amended). At a scalar position where Origin and Updated are both present (not
  empty, not null) and Dest is not an explicit null, the decision is made by the two value
  strings alone: Dest when they are equal, Updated when they differ. The value of a
  source is the value of the node \<open>YNode\<close> gives for it; the tags, the comments and the
  styles of the nodes are not read.
\<close>

theorem scalar_compares_values_only:
  assumes "\<not> IsEmpty L h (Origin nodes)" and "\<not> IsEmpty L h (Updated nodes)"
    and "\<not> IsNull L h (Updated nodes)" and "\<not> IsNull L h (Dest nodes)"
    and "YNode h (Origin nodes) = Return (Some og)"
    and "YNode h (Updated nodes) = Return (Some u)"
  shows "VisitScalar L h nodes =
           (Return (if Value (cells h u) = Value (cells h og) then Dest nodes
                    else Updated nodes, None), h)"
  using assms by (simp add: VisitScalar_def)

theorem scalar_compares_values_only_witness:
  "Value (cells docs 5) = Value (cells docs 0)
   \<and> Tag (cells docs 5) \<noteq> Tag (cells docs 0)
   \<and> Style (cells docs 5) \<noteq> Style (cells docs 0)
   \<and> HeadComment (cells docs 5) \<noteq> HeadComment (cells docs 0)
   \<and> LineComment (cells docs 5) \<noteq> LineComment (cells docs 0)
   \<and> VisitScalar spec_lib docs (src (NewRNode 0) (NewRNode 5) (NewRNode 3))
       = (Return (NewRNode 3, None), docs)
   \<and> YNode docs (NewRNode 13) = Return (Some 0)
   \<and> VisitScalar spec_lib docs (src (NewRNode 13) (NewRNode 5) (NewRNode 14))
       = (Return (NewRNode 14, None), docs)"
proof -
  have "VisitScalar spec_lib docs (src (NewRNode 0) (NewRNode 5) (NewRNode 3))
      = (Return (if Value (cells docs 5) = Value (cells docs 0)
                 then Dest (src (NewRNode 0) (NewRNode 5) (NewRNode 3))
                 else Updated (src (NewRNode 0) (NewRNode 5) (NewRNode 3)), None), docs)"
    by (rule scalar_compares_values_only [where og = 0 and u = 5])
      (simp_all add: example_defs)
  moreover have "VisitScalar spec_lib docs (src (NewRNode 13) (NewRNode 5) (NewRNode 14))
      = (Return (if Value (cells docs 5) = Value (cells docs 0)
                 then Dest (src (NewRNode 13) (NewRNode 5) (NewRNode 14))
                 else Updated (src (NewRNode 13) (NewRNode 5) (NewRNode 14)), None), docs)"
    by (rule scalar_compares_values_only [where og = 0 and u = 5])
      (simp_all add: example_defs)
  ultimately show ?thesis
    by (simp add: example_defs)
qed

text \<open>
  C10 as stated fails when Dest is an explicit null: Origin is the integer \<open>1\<close> and Updated
  the quoted string \<open>"1"\<close>, both present and not null, and the scalar rule returns nil, not
  Dest.
\<close>

theorem scalar_compares_values_only_counterexample:
  "\<not> IsEmpty spec_lib docs (Origin (src (NewRNode 0) (NewRNode 5) (NewRNode 4)))
   \<and> \<not> IsEmpty spec_lib docs (Updated (src (NewRNode 0) (NewRNode 5) (NewRNode 4)))
   \<and> \<not> IsNull spec_lib docs (Origin (src (NewRNode 0) (NewRNode 5) (NewRNode 4)))
   \<and> \<not> IsNull spec_lib docs (Updated (src (NewRNode 0) (NewRNode 5) (NewRNode 4)))
   \<and> YNode docs (Origin (src (NewRNode 0) (NewRNode 5) (NewRNode 4))) = Return (Some 0)
   \<and> YNode docs (Updated (src (NewRNode 0) (NewRNode 5) (NewRNode 4))) = Return (Some 5)
   \<and> Value (cells docs 5) = Value (cells docs 0)
   \<and> Tag (cells docs 5) \<noteq> Tag (cells docs 0)
   \<and> VisitScalar spec_lib docs (src (NewRNode 0) (NewRNode 5) (NewRNode 4))
       = (Return (None, None), docs)
   \<and> Dest (src (NewRNode 0) (NewRNode 5) (NewRNode 4)) \<noteq> None"
  by (simp add: VisitScalar_def example_defs)

end
